theory Spec2Isabelle
  imports Complex_Main
begin

section \<open>MojiNav route tracking (round_1/frontend/src/App.tsx)\<close>

text \<open>
  The navigation logic of the MojiNav frontend lives in one React component. Its pieces are
  the Haversine distance \<open>calculateDistance\<close>, the vertex scan
  \<open>findNearestDistanceToRoute\<close>, the position callback registered by
  \<open>startPositionWatch\<close> and the continuation of \<open>recalculateRoute\<close> that runs when the
  routing request resolves.

  JavaScript numbers are modelled as real numbers (latitudes, longitudes, distances) and as
  integers (the millisecond clock \<open>Date.now()\<close>). \<open>calculateDistance\<close> is the formula of the
  source in exact arithmetic; the doubles of the engine round, and may even end in \<open>NaN\<close>
  for nearly antipodal points, which the exact formula does not show. The theorems about the
  callback take the distance as it is and compare it with the thresholds; the vertex scan
  is stated a second time for distances that may be \<open>NaN\<close>. React state cells and refs
  become the fields of one state record that every handler takes and returns.
\<close>

subsection \<open>Types\<close>

datatype AppView =
    Loading | LocationError | NetworkError | RateLimited | Grid | Searching
  | Results | NoResults | Navigating | Recalculating | Arrived | Settings

record Location =
  lat :: real
  lng :: real

text \<open>
  A search result has the fields of a location and more; a record extension lets \<open>lat\<close>
  and \<open>lng\<close> read both, as structural typing does in the source.
\<close>

record SearchResult = Location +
  id_sr :: int
  tags :: "string \<rightharpoonup> string"

record RouteStep =
  instruction :: string
  maneuver :: int
  step_distance :: real
  step_duration :: real
  way_points :: "int list"

text \<open>A coordinate is the pair \<open>[lng, lat]\<close>: index 0 is the longitude, index 1 the latitude.\<close>

record Route =
  distance :: real
  duration :: real
  coordinates :: "(real \<times> real) list"
  steps :: "RouteStep list"

text \<open>
  \<open>minDist\<close> starts at \<open>Infinity\<close>, which is no real number, and a double computation may
  end in \<open>NaN\<close>: a distance variable is a finite real, \<open>Infinity\<close> or \<open>NaN\<close>.
\<close>

datatype jsnum = Finite real | Infinity | NaN

text \<open>
  The state the navigation handlers read and write.
  \<^item> \<open>view\<close>, \<open>location\<close>, \<open>route\<close>, \<open>currentStepIndex\<close>: the \<open>useState\<close> cells.
  \<^item> \<open>positionWatch\<close>: the watch registered with the geolocation service and named by
    \<open>watchIdRef.current\<close>, together with the \<open>destination\<close> and \<open>currentRoute\<close> its callback
    closed over; \<open>None\<close> when \<open>watchIdRef.current\<close> is \<open>null\<close>.
  \<^item> \<open>lastRecalcTimeRef\<close>: the ref of that name, in milliseconds, initially 0.
  \<^item> \<open>recalcRequests\<close>: the calls of \<open>recalculateRoute\<close> whose \<open>fetch\<close> has not resolved
    yet, oldest first, each with its two arguments.
\<close>

record AppState =
  view :: AppView
  location :: "Location option"
  route :: "Route option"
  currentStepIndex :: nat
  positionWatch :: "(SearchResult \<times> Route) option"
  lastRecalcTimeRef :: int
  recalcRequests :: "(Location \<times> SearchResult) list"

text \<open>What a routing request resolves to: an ok response with its parsed body, a response
  that is not ok, or an exception thrown by \<open>fetch\<close> or by reading the body.\<close>

datatype RouteResponse = ResponseOk Route | ResponseNotOk | FetchThrew

text \<open>The two asynchronous callbacks of a navigation session: a position fix (latitude,
  longitude and the value \<open>Date.now()\<close> has when the callback runs) and the resolution of
  the oldest routing request in flight.\<close>

datatype Event = PositionFix real real int | RecalcResolved RouteResponse

subsection \<open>Geometry\<close>

text \<open>\<open>Math.atan2\<close> on real numbers.\<close>

definition atan2 :: "real \<Rightarrow> real \<Rightarrow> real" where
  "atan2 y x =
     (if 0 < x then arctan (y / x)
      else if x < 0 \<and> 0 \<le> y then arctan (y / x) + pi
      else if x < 0 then arctan (y / x) - pi
      else if 0 < y then pi / 2
      else if y < 0 then - (pi / 2)
      else 0)"

definition calculateDistance :: "real \<Rightarrow> real \<Rightarrow> real \<Rightarrow> real \<Rightarrow> real" where
  "calculateDistance lat1 lng1 lat2 lng2 =
     (let R = 6371000;
          dLat = (lat2 - lat1) * pi / 180;
          dLng = (lng2 - lng1) * pi / 180;
          a = (sin (dLat / 2))\<^sup>2 +
              cos (lat1 * pi / 180) * cos (lat2 * pi / 180) * (sin (dLng / 2))\<^sup>2;
          c = 2 * atan2 (sqrt a) (sqrt (1 - a))
      in R * c)"

text \<open>The intermediate value \<open>a\<close> of \<open>calculateDistance\<close>, named so that theorems can
  speak about the arguments of its two square roots.\<close>

definition haversine_a :: "real \<Rightarrow> real \<Rightarrow> real \<Rightarrow> real \<Rightarrow> real" where
  "haversine_a lat1 lng1 lat2 lng2 =
     (sin ((lat2 - lat1) * pi / 180 / 2))\<^sup>2 +
     cos (lat1 * pi / 180) * cos (lat2 * pi / 180) * (sin ((lng2 - lng1) * pi / 180 / 2))\<^sup>2"

text \<open>\<open>dist < minDist\<close> and \<open>nearestDist > 30\<close>, where the distance variable may be
  \<open>Infinity\<close>.\<close>

fun js_less :: "real \<Rightarrow> jsnum \<Rightarrow> bool" where
  "js_less d (Finite m) = (d < m)"
| "js_less d Infinity = True"
| "js_less d NaN = False"

fun js_greater :: "jsnum \<Rightarrow> real \<Rightarrow> bool" where
  "js_greater (Finite m) t = (t < m)"
| "js_greater Infinity t = True"
| "js_greater NaN t = False"

text \<open>The \<open>for\<close> loop of \<open>findNearestDistanceToRoute\<close>, with \<open>minDist\<close> as accumulator.\<close>

fun nearest_loop :: "Location \<Rightarrow> (real \<times> real) list \<Rightarrow> jsnum \<Rightarrow> jsnum" where
  "nearest_loop loc [] minDist = minDist"
| "nearest_loop loc (coord # coords) minDist =
     (let dist = calculateDistance (lat loc) (lng loc) (snd coord) (fst coord)
      in nearest_loop loc coords (if js_less dist minDist then Finite dist else minDist))"

definition findNearestDistanceToRoute :: "Location \<Rightarrow> (real \<times> real) list \<Rightarrow> jsnum" where
  "findNearestDistanceToRoute loc coords = nearest_loop loc coords Infinity"

subsection \<open>The vertex scan on the distances as the engine computes them\<close>

text \<open>
  In the doubles of the engine \<open>calculateDistance\<close> can return \<open>NaN\<close>: rounding can push
  \<open>a\<close> above 1, and \<open>Math.sqrt\<close> of a negative number is \<open>NaN\<close>, which \<open>Math.atan2\<close> and the
  products pass through. \<open>distanceFromA\<close> is the end of \<open>calculateDistance\<close> (the lines of
  \<open>c\<close> and of the result) on a computed value of \<open>a\<close>.
\<close>

definition distanceFromA :: "real \<Rightarrow> jsnum" where
  "distanceFromA a =
     (if 0 \<le> a \<and> a \<le> 1 then Finite (6371000 * (2 * atan2 (sqrt a) (sqrt (1 - a))))
      else NaN)"

text \<open>\<open>dist < minDist\<close> on two numbers of which either may be \<open>Infinity\<close> or \<open>NaN\<close>: a
  comparison with \<open>NaN\<close> is false.\<close>

fun js_lt :: "jsnum \<Rightarrow> jsnum \<Rightarrow> bool" where
  "js_lt (Finite x) (Finite y) = (x < y)"
| "js_lt (Finite x) Infinity = True"
| "js_lt (Finite x) NaN = False"
| "js_lt Infinity m = False"
| "js_lt NaN m = False"

text \<open>
  The loop of \<open>findNearestDistanceToRoute\<close> once more, with the value that the call of
  \<open>calculateDistance\<close> returns left open: \<open>distanceOf\<close> stands for \<open>calculateDistance\<close> as
  the engine evaluates it, a number or \<open>NaN\<close>.
\<close>

fun nearest_loop_with ::
  "(real \<Rightarrow> real \<Rightarrow> real \<Rightarrow> real \<Rightarrow> jsnum) \<Rightarrow> Location \<Rightarrow> (real \<times> real) list \<Rightarrow> jsnum \<Rightarrow> jsnum"
  where
  "nearest_loop_with distanceOf loc [] minDist = minDist"
| "nearest_loop_with distanceOf loc (coord # coords) minDist =
     (let dist = distanceOf (lat loc) (lng loc) (snd coord) (fst coord)
      in nearest_loop_with distanceOf loc coords (if js_lt dist minDist then dist else minDist))"

definition findNearestDistanceWith ::
  "(real \<Rightarrow> real \<Rightarrow> real \<Rightarrow> real \<Rightarrow> jsnum) \<Rightarrow> Location \<Rightarrow> (real \<times> real) list \<Rightarrow> jsnum"
  where
  "findNearestDistanceWith distanceOf loc coords = nearest_loop_with distanceOf loc coords Infinity"

subsection \<open>The position callback\<close>

text \<open>Array reads: an index outside the array (or negative) reads \<open>undefined\<close>.\<close>

definition step_at :: "RouteStep list \<Rightarrow> nat \<Rightarrow> RouteStep option" where
  "step_at ss i = (if i < length ss then Some (ss ! i) else None)"

definition coord_at :: "(real \<times> real) list \<Rightarrow> int \<Rightarrow> (real \<times> real) option" where
  "coord_at cs i = (if 0 \<le> i \<and> nat i < length cs then Some (cs ! nat i) else None)"

text \<open>The updater passed to \<open>setCurrentStepIndex\<close>.\<close>

definition stepProgress :: "Route \<Rightarrow> Location \<Rightarrow> nat \<Rightarrow> nat" where
  "stepProgress currentRoute newLoc prevIndex =
     (case step_at (steps currentRoute) prevIndex of
        None \<Rightarrow> prevIndex
      | Some step \<Rightarrow>
          if 1 < length (way_points step) then
            (let endIdx = way_points step ! (length (way_points step) - 1)
             in case coord_at (coordinates currentRoute) endIdx of
                  None \<Rightarrow> prevIndex
                | Some endCoord \<Rightarrow>
                    (let distToStep =
                           calculateDistance (lat newLoc) (lng newLoc) (snd endCoord) (fst endCoord)
                     in if distToStep < 6 \<and>
                           int prevIndex < int (length (steps currentRoute)) - 1
                        then prevIndex + 1
                        else prevIndex))
          else prevIndex)"

text \<open>
  The success callback given to \<open>watchPosition\<close>, for the closure \<open>(destination,
  currentRoute)\<close>. A recalculation is started by calling \<open>recalculateRoute\<close>, whose request
  is then in flight.
\<close>

definition onPosition ::
  "SearchResult \<Rightarrow> Route \<Rightarrow> real \<Rightarrow> real \<Rightarrow> int \<Rightarrow> AppState \<Rightarrow> AppState" where
  "onPosition destination currentRoute latitude longitude now st =
     (let newLoc = \<lparr>lat = latitude, lng = longitude\<rparr>;
          st1 = st\<lparr>location := Some newLoc\<rparr>;
          distToDest =
            calculateDistance (lat newLoc) (lng newLoc) (lat destination) (lng destination)
      in if distToDest < 20 then st1\<lparr>positionWatch := None, view := Arrived\<rparr>
         else
           (let st2 = st1\<lparr>currentStepIndex :=
                             stepProgress currentRoute newLoc (currentStepIndex st1)\<rparr>;
                nearestDist = findNearestDistanceToRoute newLoc (coordinates currentRoute)
            in if js_greater nearestDist 30 then
                 (if 10000 < now - lastRecalcTimeRef st2 then
                    st2\<lparr>lastRecalcTimeRef := now, view := Recalculating,
                        recalcRequests := recalcRequests st2 @ [(newLoc, destination)]\<rparr>
                  else st2)
               else st2))"

text \<open>The rest of \<open>recalculateRoute\<close>, after its \<open>fetch\<close> has resolved.\<close>

definition recalculateRoute_resolved :: "RouteResponse \<Rightarrow> AppState \<Rightarrow> AppState" where
  "recalculateRoute_resolved response st =
     (case response of
        ResponseOk routeData \<Rightarrow>
          st\<lparr>route := Some routeData, currentStepIndex := 0, view := Navigating\<rparr>
      | ResponseNotOk \<Rightarrow> st\<lparr>view := Navigating\<rparr>
      | FetchThrew \<Rightarrow> st\<lparr>view := Navigating\<rparr>)"

text \<open>The end of \<open>handleDestinationSelect\<close> when the route arrives: the route is installed
  and \<open>startPositionWatch\<close> replaces any earlier watch by a new one.\<close>

definition startNavigation :: "SearchResult \<Rightarrow> Route \<Rightarrow> AppState \<Rightarrow> AppState" where
  "startNavigation result routeData st =
     st\<lparr>route := Some routeData, currentStepIndex := 0, view := Navigating,
        positionWatch := Some (result, routeData)\<rparr>"

text \<open>The state of a freshly mounted component that has acquired a location.\<close>

definition gridState :: "Location \<Rightarrow> AppState" where
  "gridState loc =
     \<lparr>view = Grid, location = Some loc, route = None, currentStepIndex = 0,
      positionWatch = None, lastRecalcTimeRef = 0, recalcRequests = []\<rparr>"

text \<open>
  Delivery of one callback. The geolocation service calls the position callback only while
  the watch is registered; after \<open>clearWatch\<close> a fix reaches no handler. A resolution
  resumes the oldest call of \<open>recalculateRoute\<close>.
\<close>

fun deliver :: "Event \<Rightarrow> AppState \<Rightarrow> AppState" where
  "deliver (PositionFix latitude longitude now) st =
     (case positionWatch st of
        None \<Rightarrow> st
      | Some (destination, currentRoute) \<Rightarrow>
          onPosition destination currentRoute latitude longitude now st)"
| "deliver (RecalcResolved response) st =
     (case recalcRequests st of
        [] \<Rightarrow> st
      | request # others \<Rightarrow> recalculateRoute_resolved response (st\<lparr>recalcRequests := others\<rparr>))"

fun run :: "Event list \<Rightarrow> AppState \<Rightarrow> AppState" where
  "run [] st = st"
| "run (e # es) st = run es (deliver e st)"

subsection \<open>The decisions of the position callback, named\<close>

text \<open>The three tests the callback makes on a fix, as predicates on the same expressions.\<close>

definition arrivalDecision :: "SearchResult \<Rightarrow> real \<Rightarrow> real \<Rightarrow> bool" where
  "arrivalDecision destination latitude longitude =
     (calculateDistance latitude longitude (lat destination) (lng destination) < 20)"

definition offRoute :: "Route \<Rightarrow> real \<Rightarrow> real \<Rightarrow> bool" where
  "offRoute currentRoute latitude longitude =
     js_greater (findNearestDistanceToRoute \<lparr>lat = latitude, lng = longitude\<rparr>
                   (coordinates currentRoute)) 30"

text \<open>The end coordinate of a step as the updater finds it: the coordinate at the last of
  the step's way points, when the step has more than one way point and that index is
  inside the coordinate array.\<close>

definition stepEndCoord :: "Route \<Rightarrow> nat \<Rightarrow> (real \<times> real) option" where
  "stepEndCoord currentRoute i =
     (case step_at (steps currentRoute) i of
        None \<Rightarrow> None
      | Some step \<Rightarrow>
          if 1 < length (way_points step)
          then coord_at (coordinates currentRoute)
                 (way_points step ! (length (way_points step) - 1))
          else None)"

definition nearStepEnd :: "Route \<Rightarrow> nat \<Rightarrow> real \<Rightarrow> real \<Rightarrow> bool" where
  "nearStepEnd currentRoute i latitude longitude =
     (case stepEndCoord currentRoute i of
        None \<Rightarrow> False
      | Some endCoord \<Rightarrow> calculateDistance latitude longitude (snd endCoord) (fst endCoord) < 6)"

subsection \<open>A sample session\<close>

text \<open>
  Concrete data for evaluating the handlers: a route of two steps running north along the
  meridian of longitude 0 from latitude 0 over latitude 1 to latitude 2, and destinations
  on the same meridian. One degree of latitude is about 111 km, a ten-thousandth of a degree
  about 11 m.
\<close>

definition sampleDestination :: SearchResult where
  "sampleDestination = \<lparr>lat = 2, lng = 0, id_sr = 1, tags = Map.empty\<rparr>"

definition sampleRoute :: Route where
  "sampleRoute =
     \<lparr>distance = 222390, duration = 160000,
      coordinates = [(0, 0), (0, 1), (0, 2)],
      steps =
        [\<lparr>instruction = ''Head north'', maneuver = 11, step_distance = 111195,
          step_duration = 80000, way_points = [0, 1]\<rparr>,
         \<lparr>instruction = ''Arrive'', maneuver = 10, step_distance = 111195,
          step_duration = 80000, way_points = [1, 2]\<rparr>]\<rparr>"

definition sampleStart :: AppState where
  "sampleStart = startNavigation sampleDestination sampleRoute (gridState \<lparr>lat = 0, lng = 0\<rparr>)"

text \<open>A destination set back from the road: the route ends at latitude 2, on the road, about
  111 m short of it.\<close>

definition setBackDestination :: SearchResult where
  "setBackDestination = \<lparr>lat = 2001 / 1000, lng = 0, id_sr = 2, tags = Map.empty\<rparr>"

text \<open>A route whose last leg is about 11 m long, and its destination.\<close>

definition shortLegDestination :: SearchResult where
  "shortLegDestination = \<lparr>lat = 10001 / 10000, lng = 0, id_sr = 3, tags = Map.empty\<rparr>"

definition shortLegRoute :: Route where
  "shortLegRoute =
     \<lparr>distance = 111206, duration = 80008,
      coordinates = [(0, 0), (0, 1), (0, 10001 / 10000)],
      steps =
        [\<lparr>instruction = ''Head north'', maneuver = 11, step_distance = 111195,
          step_duration = 80000, way_points = [0, 1]\<rparr>,
         \<lparr>instruction = ''Arrive'', maneuver = 10, step_distance = 11,
          step_duration = 8, way_points = [1, 2]\<rparr>]\<rparr>"

text \<open>A route that a recalculation from latitude 1.5 may return.\<close>

definition detourRoute :: Route where
  "detourRoute =
     \<lparr>distance = 55597, duration = 40000,
      coordinates = [(0, 3 / 2), (0, 2)],
      steps =
        [\<lparr>instruction = ''Head north'', maneuver = 11, step_distance = 55597,
          step_duration = 40000, way_points = [0, 1]\<rparr>]\<rparr>"

section \<open>Geometry: facts about the distance functions\<close>

lemma calculateDistance_via_a:
  "calculateDistance lat1 lng1 lat2 lng2 =
     6371000 * (2 * atan2 (sqrt (haversine_a lat1 lng1 lat2 lng2))
                          (sqrt (1 - haversine_a lat1 lng1 lat2 lng2)))"
  by (simp add: calculateDistance_def haversine_a_def Let_def)

lemma haversine_a_meridian:
  "haversine_a lat1 l lat2 l = (sin ((lat2 - lat1) * pi / 360))\<^sup>2"
  by (simp add: haversine_a_def)

lemma arctan_abs_tan:
  assumes "\<bar>h\<bar> < pi / 2"
  shows "arctan (\<bar>sin h\<bar> / cos h) = \<bar>h\<bar>"
proof -
  have c: "0 < cos h" using assms by (intro cos_gt_zero_pi) (auto simp: abs_less_iff)
  have "\<bar>sin h\<bar> / cos h = tan \<bar>h\<bar>"
  proof (cases "0 \<le> h")
    case True
    then have "0 \<le> sin h" using assms pi_gt_zero by (intro sin_ge_zero) auto
    then show ?thesis using True by (simp add: tan_def)
  next
    case False
    then have "0 < sin (- h)" using assms pi_gt_zero by (intro sin_gt_zero) auto
    then have "sin h < 0" by simp
    then show ?thesis using False by (simp add: tan_def)
  qed
  moreover have "arctan (tan \<bar>h\<bar>) = \<bar>h\<bar>"
    using assms by (intro arctan_tan) (auto simp: abs_less_iff)
  ultimately show ?thesis by simp
qed

lemma calculateDistance_meridian:
  assumes "\<bar>lat2 - lat1\<bar> < 180"
  shows "calculateDistance lat1 l lat2 l = 6371000 * \<bar>lat2 - lat1\<bar> * pi / 180"
proof -
  define h where "h = (lat2 - lat1) * pi / 360"
  have "\<bar>lat2 - lat1\<bar> * pi < 180 * pi"
    using assms by (simp only: mult_less_cancel_right_pos [OF pi_gt_zero])
  then have hb: "\<bar>h\<bar> < pi / 2" by (simp add: h_def abs_mult)
  have c: "0 < cos h" using hb by (intro cos_gt_zero_pi) (auto simp: abs_less_iff)
  have a: "haversine_a lat1 l lat2 l = (sin h)\<^sup>2" by (simp add: haversine_a_meridian h_def)
  have s1: "sqrt ((sin h)\<^sup>2) = \<bar>sin h\<bar>" by simp
  have "1 - (sin h)\<^sup>2 = (cos h)\<^sup>2" by (simp add: cos_squared_eq)
  then have s2: "sqrt (1 - (sin h)\<^sup>2) = cos h" using c by simp
  have "atan2 \<bar>sin h\<bar> (cos h) = \<bar>h\<bar>" using c arctan_abs_tan [OF hb] by (simp add: atan2_def)
  then have "calculateDistance lat1 l lat2 l = 6371000 * (2 * \<bar>h\<bar>)"
    by (simp only: calculateDistance_via_a a s1 s2)
  also have "\<dots> = 6371000 * \<bar>lat2 - lat1\<bar> * pi / 180" by (simp add: h_def abs_mult)
  finally show ?thesis .
qed

lemma calculateDistance_meridian_pos:
  "\<bar>lat2 - lat1\<bar> < 180 \<Longrightarrow> lat1 \<noteq> lat2 \<Longrightarrow> 0 < calculateDistance lat1 l lat2 l"
  by (simp add: calculateDistance_meridian)

lemma haversine_a_self: "haversine_a lat1 lng1 lat1 lng1 = 0"
  by (simp add: haversine_a_def)

lemma calculateDistance_self: "calculateDistance lat1 lng1 lat1 lng1 = 0"
  by (simp add: calculateDistance_via_a haversine_a_self atan2_def)

text \<open>
  In exact arithmetic \<open>a\<close> stays between 0 and 1 for latitudes between -90 and 90 degrees,
  so there the distance computed from \<open>a\<close> is a number, the one \<open>calculateDistance\<close> gives.
\<close>

lemma cos_valid_lat:
  assumes "\<bar>x\<bar> \<le> 90"
  shows "0 \<le> cos (x * pi / 180)"
proof -
  have "- 90 \<le> x" "x \<le> 90" using assms by linarith+
  then have "pi * (- 90) \<le> pi * x" "pi * x \<le> pi * 90"
    by (simp_all only: mult_le_cancel_left_pos [OF pi_gt_zero])
  then have "- (pi / 2) \<le> x * pi / 180" "x * pi / 180 \<le> pi / 2"
    by (simp_all add: field_simps)
  then show ?thesis by (rule cos_ge_zero)
qed

lemma haversine_a_nonneg:
  assumes "\<bar>lat1\<bar> \<le> 90" "\<bar>lat2\<bar> \<le> 90"
  shows "0 \<le> haversine_a lat1 lng1 lat2 lng2"
  unfolding haversine_a_def using cos_valid_lat [OF assms(1)] cos_valid_lat [OF assms(2)]
  by (intro add_nonneg_nonneg mult_nonneg_nonneg) auto

lemma haversine_a_le_1:
  assumes "\<bar>lat1\<bar> \<le> 90" "\<bar>lat2\<bar> \<le> 90"
  shows "haversine_a lat1 lng1 lat2 lng2 \<le> 1"
proof -
  define p where "p = lat1 * pi / 180"
  define q where "q = lat2 * pi / 180"
  define s where "s = (sin ((lng2 - lng1) * pi / 180 / 2))\<^sup>2"
  define A where "A = (sin ((q - p) / 2))\<^sup>2"
  define B where "B = cos p * cos q"
  have cp: "0 \<le> cos p" and cq: "0 \<le> cos q"
    using cos_valid_lat [OF assms(1)] cos_valid_lat [OF assms(2)] by (simp_all add: p_def q_def)
  have s1: "s \<le> 1" unfolding s_def by (simp add: abs_square_le_1 power2_eq_square[symmetric])
  have h: "(lat2 - lat1) * pi / 180 / 2 = (q - p) / 2" by (simp add: p_def q_def field_simps)
  have e: "2 * ((q - p) / 2) = q - p" by simp
  have f1: "cos (q - p) = 1 - 2 * A"
    using cos_double_sin [of "(q - p) / 2"] unfolding e A_def .
  have f2: "B * s \<le> B"
    using s1 cp cq by (simp add: B_def mult_left_le)
  have f3: "B = (cos (q - p) + cos (q + p)) / 2"
    by (simp add: B_def cos_diff cos_add)
  have f4: "cos (q + p) \<le> 1" by simp
  have f5: "A = (1 - cos (q - p)) / 2" using f1 by simp
  have "A + B * s \<le> A + B" using f2 by simp
  also have "\<dots> = (1 + cos (q + p)) / 2" unfolding f5 f3 by (simp add: field_simps)
  also have "\<dots> \<le> 1" using f4 by simp
  finally have "A + B * s \<le> 1" .
  then have "(sin ((q - p) / 2))\<^sup>2 + cos p * cos q * s \<le> 1"
    by (simp add: A_def B_def)
  then show ?thesis unfolding haversine_a_def h p_def q_def s_def by simp
qed

lemma distanceFromA_exact:
  "\<bar>lat1\<bar> \<le> 90 \<Longrightarrow> \<bar>lat2\<bar> \<le> 90 \<Longrightarrow>
   distanceFromA (haversine_a lat1 lng1 lat2 lng2) = Finite (calculateDistance lat1 lng1 lat2 lng2)"
  using haversine_a_nonneg [of lat1 lat2 lng1 lng2] haversine_a_le_1 [of lat1 lat2 lng1 lng2]
  by (simp add: distanceFromA_def calculateDistance_via_a)

lemma js_less_as_js_lt: "js_less d m = js_lt (Finite d) m"
  by (cases m) simp_all

lemma nearest_loop_as_with:
  "nearest_loop loc cs m =
     nearest_loop_with (\<lambda>lat1 lng1 lat2 lng2. Finite (calculateDistance lat1 lng1 lat2 lng2)) loc cs m"
  by (induction cs arbitrary: m) (simp_all add: Let_def js_less_as_js_lt)

lemma numbers_finite:
  "finite {x. Finite x \<in> f ` set cs}"
proof -
  have "{x. Finite x \<in> f ` set cs} \<subseteq> (\<lambda>v. case v of Finite x \<Rightarrow> x | _ \<Rightarrow> 0) ` (f ` set cs)"
  proof
    fix x
    assume "x \<in> {x. Finite x \<in> f ` set cs}"
    then have "Finite x \<in> f ` set cs" by simp
    then have "(case Finite x of Finite x \<Rightarrow> x | _ \<Rightarrow> 0) \<in>
                 (\<lambda>v. case v of Finite x \<Rightarrow> x | _ \<Rightarrow> 0) ` (f ` set cs)"
      by (rule imageI)
    then show "x \<in> (\<lambda>v. case v of Finite x \<Rightarrow> x | _ \<Rightarrow> 0) ` (f ` set cs)" by simp
  qed
  then show ?thesis by (rule finite_subset) simp
qed

lemma numbers_Cons:
  "{x. Finite x \<in> f ` set (c # cs)} =
     (case f c of Finite y \<Rightarrow> insert y {x. Finite x \<in> f ` set cs} | _ \<Rightarrow> {x. Finite x \<in> f ` set cs})"
  by (cases "f c") auto

lemma nearest_loop_with_Finite:
  "nearest_loop_with distanceOf loc cs (Finite m) =
     Finite (Min (insert m {x. Finite x \<in>
        (\<lambda>coord. distanceOf (lat loc) (lng loc) (snd coord) (fst coord)) ` set cs}))"
proof (induction cs arbitrary: m)
  case Nil
  show ?case by simp
next
  case (Cons c cs)
  let ?f = "\<lambda>coord. distanceOf (lat loc) (lng loc) (snd coord) (fst coord)"
  let ?S = "{x. Finite x \<in> ?f ` set cs}"
  have fin: "finite ?S" by (rule numbers_finite)
  show ?case
  proof (cases "?f c")
    case (Finite y)
    have "nearest_loop_with distanceOf loc (c # cs) (Finite m) =
            nearest_loop_with distanceOf loc cs (Finite (min y m))"
      using Finite by (simp add: Let_def min_def)
    also have "\<dots> = Finite (Min (insert (min y m) ?S))" by (rule Cons.IH)
    also have "Min (insert (min y m) ?S) = Min (insert m (insert y ?S))"
      using fin by (cases "?S = {}") (simp_all add: min.commute min.assoc)
    finally have "nearest_loop_with distanceOf loc (c # cs) (Finite m) =
                    Finite (Min (insert m (insert y ?S)))" .
    moreover have "{x. Finite x \<in> ?f ` set (c # cs)} = insert y ?S"
      unfolding numbers_Cons [of ?f c cs] Finite by simp
    ultimately show ?thesis by (simp only:)
  next
    case Infinity
    have "{x. Finite x \<in> ?f ` set (c # cs)} = ?S"
      unfolding numbers_Cons [of ?f c cs] Infinity by simp
    moreover have "nearest_loop_with distanceOf loc (c # cs) (Finite m) =
                     nearest_loop_with distanceOf loc cs (Finite m)"
      using Infinity by (simp add: Let_def)
    ultimately show ?thesis using Cons.IH [of m] by (simp only:)
  next
    case NaN
    have "{x. Finite x \<in> ?f ` set (c # cs)} = ?S"
      unfolding numbers_Cons [of ?f c cs] NaN by simp
    moreover have "nearest_loop_with distanceOf loc (c # cs) (Finite m) =
                     nearest_loop_with distanceOf loc cs (Finite m)"
      using NaN by (simp add: Let_def)
    ultimately show ?thesis using Cons.IH [of m] by (simp only:)
  qed
qed

lemma nearest_loop_with_Infinity:
  "nearest_loop_with distanceOf loc cs Infinity =
     (if {x. Finite x \<in> (\<lambda>coord. distanceOf (lat loc) (lng loc) (snd coord) (fst coord)) ` set cs} = {}
      then Infinity
      else Finite (Min {x. Finite x \<in>
        (\<lambda>coord. distanceOf (lat loc) (lng loc) (snd coord) (fst coord)) ` set cs}))"
proof (induction cs)
  case Nil
  show ?case by simp
next
  case (Cons c cs)
  let ?f = "\<lambda>coord. distanceOf (lat loc) (lng loc) (snd coord) (fst coord)"
  show ?case
  proof (cases "?f c")
    case (Finite y)
    have S': "{x. Finite x \<in> ?f ` set (c # cs)} = insert y {x. Finite x \<in> ?f ` set cs}"
      unfolding numbers_Cons [of ?f c cs] Finite by simp
    have "nearest_loop_with distanceOf loc (c # cs) Infinity =
            nearest_loop_with distanceOf loc cs (Finite y)"
      using Finite by (simp add: Let_def)
    also have "\<dots> = Finite (Min (insert y {x. Finite x \<in> ?f ` set cs}))"
      by (rule nearest_loop_with_Finite)
    finally show ?thesis unfolding S' by simp
  next
    case Infinity
    have "{x. Finite x \<in> ?f ` set (c # cs)} = {x. Finite x \<in> ?f ` set cs}"
      unfolding numbers_Cons [of ?f c cs] Infinity by simp
    moreover have "nearest_loop_with distanceOf loc (c # cs) Infinity =
                     nearest_loop_with distanceOf loc cs Infinity"
      using Infinity by (simp add: Let_def)
    ultimately show ?thesis using Cons.IH by (simp only:)
  next
    case NaN
    have "{x. Finite x \<in> ?f ` set (c # cs)} = {x. Finite x \<in> ?f ` set cs}"
      unfolding numbers_Cons [of ?f c cs] NaN by simp
    moreover have "nearest_loop_with distanceOf loc (c # cs) Infinity =
                     nearest_loop_with distanceOf loc cs Infinity"
      using NaN by (simp add: Let_def)
    ultimately show ?thesis using Cons.IH by (simp only:)
  qed
qed

text \<open>
  \<^bold>\<open>C9\<close> (amended). For every point and every polyline, the vertex scan returns the least
  of the vertex distances that are numbers (the distance from the point to the vertex,
  latitude at index 1 and longitude at index 0; no projection on segments). A vertex whose
  computed distance is \<open>NaN\<close> is skipped, because \<open>dist < minDist\<close> is false for \<open>NaN\<close>, and
  \<open>Infinity\<close> is returned when no vertex distance is a number. For a non-empty polyline all
  of whose vertex distances are numbers, as they are in exact arithmetic, the result is the
  minimum over all vertices.
\<close>

theorem nearest_is_min_of_numbers:
  "findNearestDistanceWith distanceOf loc coords =
     (if {x. Finite x \<in>
            (\<lambda>coord. distanceOf (lat loc) (lng loc) (snd coord) (fst coord)) ` set coords} = {}
      then Infinity
      else Finite (Min {x. Finite x \<in>
            (\<lambda>coord. distanceOf (lat loc) (lng loc) (snd coord) (fst coord)) ` set coords})) \<and>
   (coords \<noteq> [] \<and>
    (\<forall>coord\<in>set coords.
        distanceOf (lat loc) (lng loc) (snd coord) (fst coord) = Finite (f coord)) \<longrightarrow>
      findNearestDistanceWith distanceOf loc coords = Finite (Min (f ` set coords))) \<and>
   findNearestDistanceToRoute loc coords =
     findNearestDistanceWith
       (\<lambda>lat1 lng1 lat2 lng2. Finite (calculateDistance lat1 lng1 lat2 lng2)) loc coords"
proof -
  let ?d = "\<lambda>coord. distanceOf (lat loc) (lng loc) (snd coord) (fst coord)"
  have a: "findNearestDistanceWith distanceOf loc coords =
     (if {x. Finite x \<in> ?d ` set coords} = {} then Infinity
      else Finite (Min {x. Finite x \<in> ?d ` set coords}))"
    unfolding findNearestDistanceWith_def by (rule nearest_loop_with_Infinity)
  have b: "findNearestDistanceWith distanceOf loc coords = Finite (Min (f ` set coords))"
    if ne: "coords \<noteq> []" and num: "\<forall>coord\<in>set coords. ?d coord = Finite (f coord)"
  proof -
    have "{x. Finite x \<in> ?d ` set coords} = f ` set coords"
    proof (rule set_eqI)
      fix x
      show "x \<in> {x. Finite x \<in> ?d ` set coords} \<longleftrightarrow> x \<in> f ` set coords"
        using num by (auto simp: image_iff)
    qed
    moreover have "f ` set coords \<noteq> {}" using ne by simp
    ultimately show ?thesis using a by simp
  qed
  have c: "findNearestDistanceToRoute loc coords =
     findNearestDistanceWith
       (\<lambda>lat1 lng1 lat2 lng2. Finite (calculateDistance lat1 lng1 lat2 lng2)) loc coords"
    by (simp only: findNearestDistanceToRoute_def findNearestDistanceWith_def nearest_loop_as_with)
  show ?thesis using a b c by blast
qed

theorem nearest_is_min_of_numbers_witness:
  "[(0, 1), (0, 0), (0, 2)] \<noteq> ([] :: (real \<times> real) list) \<and>
   Finite (calculateDistance (lat \<lparr>lat = 0, lng = 0\<rparr>) (lng \<lparr>lat = 0, lng = 0\<rparr>) 1 0) =
     Finite (calculateDistance 0 0 1 0) \<and>
   Finite (calculateDistance (lat \<lparr>lat = 0, lng = 0\<rparr>) (lng \<lparr>lat = 0, lng = 0\<rparr>) 0 0) =
     Finite (calculateDistance 0 0 0 0) \<and>
   Finite (calculateDistance (lat \<lparr>lat = 0, lng = 0\<rparr>) (lng \<lparr>lat = 0, lng = 0\<rparr>) 2 0) =
     Finite (calculateDistance 0 0 2 0) \<and>
   findNearestDistanceWith
     (\<lambda>lat1 lng1 lat2 lng2. Finite (calculateDistance lat1 lng1 lat2 lng2))
     \<lparr>lat = 0, lng = 0\<rparr> [(0, 1), (0, 0), (0, 2)] = Finite 0 \<and>
   findNearestDistanceToRoute \<lparr>lat = 0, lng = 0\<rparr> [(0, 1), (0, 0), (0, 2)] = Finite 0"
proof -
  let ?exact = "\<lambda>lat1 lng1 lat2 lng2. Finite (calculateDistance lat1 lng1 lat2 lng2)"
  let ?f = "\<lambda>coord. calculateDistance 0 0 (snd coord) (fst coord)"
  note th = nearest_is_min_of_numbers
      [of ?exact "\<lparr>lat = 0, lng = 0\<rparr>" "[(0, 1), (0, 0), (0, 2)]" ?f]
  have h: "[(0, 1), (0, 0), (0, 2)] \<noteq> ([] :: (real \<times> real) list) \<and>
     (\<forall>coord\<in>set [(0, 1), (0, 0), (0, 2)].
        ?exact (lat \<lparr>lat = 0, lng = 0\<rparr>) (lng \<lparr>lat = 0, lng = 0\<rparr>) (snd coord) (fst coord) =
        Finite (?f coord))"
    by simp
  have r: "findNearestDistanceWith ?exact \<lparr>lat = 0, lng = 0\<rparr> [(0, 1), (0, 0), (0, 2)] =
             Finite (Min (?f ` set [(0, 1), (0, 0), (0, 2)]))"
    using th h by blast
  have c: "findNearestDistanceToRoute \<lparr>lat = 0, lng = 0\<rparr> [(0, 1), (0, 0), (0, 2)] =
             findNearestDistanceWith ?exact \<lparr>lat = 0, lng = 0\<rparr> [(0, 1), (0, 0), (0, 2)]"
    using th by blast
  have "0 < calculateDistance 0 0 1 0" "0 < calculateDistance 0 0 2 0"
    by (simp_all add: calculateDistance_meridian_pos)
  then have m: "Min (?f ` set [(0, 1), (0, 0), (0, 2)]) = 0"
    by (simp add: calculateDistance_self min_def)
  show ?thesis using h r c m by simp
qed

text \<open>
  The claim as stated fails where the computed distance is \<open>NaN\<close>. For the point
  (0.71875, 0) and the one-vertex polyline [[180, -0.71875]], nearly antipodal, doubles give
  \<open>a = 1.0000000000000002\<close>, that is \<open>1 + 1 / 2 ^ 52\<close>; the distance computed from it is
  \<open>NaN\<close>, and the scan of the non-empty polyline returns \<open>Infinity\<close>.
\<close>

theorem nearest_skips_nan_counterexample:
  "[(180, - (23 / 32))] \<noteq> ([] :: (real \<times> real) list) \<and>
   distanceFromA (1 + 1 / 2 ^ 52) = NaN \<and>
   findNearestDistanceWith (\<lambda>lat1 lng1 lat2 lng2. distanceFromA (1 + 1 / 2 ^ 52))
     \<lparr>lat = 23 / 32, lng = 0\<rparr> [(180, - (23 / 32))] = Infinity"
  by (simp add: distanceFromA_def findNearestDistanceWith_def Let_def)

text \<open>
  \<^bold>\<open>C10.\<close> On the empty coordinate list \<open>findNearestDistanceToRoute\<close> returns
  \<open>Infinity\<close>; that value exceeds every finite threshold, so every position is off-route
  for a route whose coordinate list is empty.
\<close>

theorem empty_is_inf:
  "findNearestDistanceToRoute loc [] = Infinity \<and>
   (\<forall>t. js_greater (findNearestDistanceToRoute loc []) t) \<and>
   offRoute (r\<lparr>coordinates := []\<rparr>) latitude longitude"
  by (simp add: findNearestDistanceToRoute_def offRoute_def)

section \<open>Distances along a meridian\<close>

text \<open>Between two points of equal longitude the distance is the arc of the latitude
  difference; with \<open>2 \<le> pi < 4\<close> this bounds it on both sides.\<close>

lemma meridian_bounds:
  assumes "\<bar>lat2 - lat1\<bar> < 180"
  shows "6371000 * \<bar>lat2 - lat1\<bar> / 90 \<le> calculateDistance lat1 l lat2 l \<and>
         calculateDistance lat1 l lat2 l \<le> 6371000 * \<bar>lat2 - lat1\<bar> / 45"
proof -
  define k where "k = \<bar>lat2 - lat1\<bar>"
  have k: "0 \<le> k" by (simp add: k_def)
  have "2 * k \<le> pi * k" "pi * k \<le> 4 * k"
    using k pi_ge_two pi_less_4 by (auto intro!: mult_right_mono)
  then have "6371000 * k / 90 \<le> 6371000 * k * pi / 180 \<and> 6371000 * k * pi / 180 \<le> 6371000 * k / 45"
    by simp
  then show ?thesis unfolding k_def by (simp only: calculateDistance_meridian [OF assms])
qed

lemma meridian_far:
  "1 / 1000 \<le> \<bar>lat2 - lat1\<bar> \<Longrightarrow> \<bar>lat2 - lat1\<bar> < 180 \<Longrightarrow> 30 < calculateDistance lat1 l lat2 l"
  using meridian_bounds [of lat2 lat1 l] by simp

lemma meridian_near:
  "\<bar>lat2 - lat1\<bar> \<le> 4 / 100000 \<Longrightarrow> calculateDistance lat1 l lat2 l < 6"
  using meridian_bounds [of lat2 lat1 l] by simp

lemma meridian_within_20:
  "\<bar>lat2 - lat1\<bar> \<le> 1 / 10000 \<Longrightarrow> calculateDistance lat1 l lat2 l < 20"
  using meridian_bounds [of lat2 lat1 l] by simp

lemma meridian_within_30:
  "\<bar>lat2 - lat1\<bar> \<le> 2 / 10000 \<Longrightarrow> calculateDistance lat1 l lat2 l < 30"
  using meridian_bounds [of lat2 lat1 l] by simp

lemma meridian_beyond_10:
  "2 / 10000 \<le> \<bar>lat2 - lat1\<bar> \<Longrightarrow> \<bar>lat2 - lat1\<bar> < 180 \<Longrightarrow> 10 < calculateDistance lat1 l lat2 l"
  using meridian_bounds [of lat2 lat1 l] by simp


lemma meridian_not_within_20:
  "1 / 1000 \<le> \<bar>lat2 - lat1\<bar> \<Longrightarrow> \<bar>lat2 - lat1\<bar> < 180 \<Longrightarrow> \<not> calculateDistance lat1 l lat2 l < 20"
  using meridian_far [of lat2 lat1 l] by simp

lemma meridian_not_near:
  "2 / 10000 \<le> \<bar>lat2 - lat1\<bar> \<Longrightarrow> \<bar>lat2 - lat1\<bar> < 180 \<Longrightarrow> \<not> calculateDistance lat1 l lat2 l < 6"
  using meridian_beyond_10 [of lat2 lat1 l] by simp

lemma meridian_not_far:
  "\<bar>lat2 - lat1\<bar> \<le> 2 / 10000 \<Longrightarrow> \<not> 30 < calculateDistance lat1 l lat2 l"
  using meridian_within_30 [of lat2 lat1 l] by simp


lemmas meridian_eval =
  meridian_far meridian_near meridian_within_20 meridian_not_within_20 meridian_not_near
  meridian_not_far calculateDistance_self

section \<open>The position callback, case by case\<close>

lemma js_greater_nearest_loop:
  "js_greater (nearest_loop loc cs m) t =
     (js_greater m t \<and> (\<forall>c\<in>set cs. t < calculateDistance (lat loc) (lng loc) (snd c) (fst c)))"
proof (induction cs arbitrary: m)
  case Nil
  show ?case by simp
next
  case (Cons c cs)
  show ?case by (cases m) (auto simp: Let_def Cons.IH)
qed

lemma offRoute_iff:
  "offRoute r la lo = (\<forall>c\<in>set (coordinates r). 30 < calculateDistance la lo (snd c) (fst c))"
  by (simp add: offRoute_def findNearestDistanceToRoute_def js_greater_nearest_loop)

lemma stepProgress_eq:
  "stepProgress r \<lparr>lat = la, lng = lo\<rparr> i =
     (if nearStepEnd r i la lo \<and> i + 1 < length (steps r) then i + 1 else i)"
  by (auto simp: stepProgress_def nearStepEnd_def stepEndCoord_def Let_def split: option.splits)

lemma onPosition_arrival:
  "arrivalDecision d la lo \<Longrightarrow>
   onPosition d r la lo now st =
     st\<lparr>location := Some \<lparr>lat = la, lng = lo\<rparr>, positionWatch := None, view := Arrived\<rparr>"
  by (simp add: onPosition_def arrivalDecision_def Let_def)

lemma onPosition_tracking:
  "\<not> arrivalDecision d la lo \<Longrightarrow>
   onPosition d r la lo now st =
     (if offRoute r la lo \<and> 10000 < now - lastRecalcTimeRef st then
        st\<lparr>location := Some \<lparr>lat = la, lng = lo\<rparr>,
           currentStepIndex := stepProgress r \<lparr>lat = la, lng = lo\<rparr> (currentStepIndex st),
           lastRecalcTimeRef := now, view := Recalculating,
           recalcRequests := recalcRequests st @ [(\<lparr>lat = la, lng = lo\<rparr>, d)]\<rparr>
      else
        st\<lparr>location := Some \<lparr>lat = la, lng = lo\<rparr>,
           currentStepIndex := stepProgress r \<lparr>lat = la, lng = lo\<rparr> (currentStepIndex st)\<rparr>)"
  by (simp add: onPosition_def arrivalDecision_def offRoute_def Let_def)

lemma deliver_fix_requests:
  assumes "positionWatch st = Some (d, r)" "\<not> arrivalDecision d la lo"
  shows "deliver (PositionFix la lo now) st =
     (if offRoute r la lo \<and> 10000 < now - lastRecalcTimeRef st then
        st\<lparr>location := Some \<lparr>lat = la, lng = lo\<rparr>,
           currentStepIndex := stepProgress r \<lparr>lat = la, lng = lo\<rparr> (currentStepIndex st),
           lastRecalcTimeRef := now, view := Recalculating,
           recalcRequests := recalcRequests st @ [(\<lparr>lat = la, lng = lo\<rparr>, d)]\<rparr>
      else
        st\<lparr>location := Some \<lparr>lat = la, lng = lo\<rparr>,
           currentStepIndex := stepProgress r \<lparr>lat = la, lng = lo\<rparr> (currentStepIndex st)\<rparr>)"
  using assms by (simp add: onPosition_tracking)

lemma deliver_fix_index:
  "currentStepIndex (deliver (PositionFix la lo now) st) =
     (case positionWatch st of
        None \<Rightarrow> currentStepIndex st
      | Some (d, r) \<Rightarrow>
          if \<not> arrivalDecision d la lo \<and> nearStepEnd r (currentStepIndex st) la lo \<and>
             currentStepIndex st + 1 < length (steps r)
          then currentStepIndex st + 1
          else currentStepIndex st)"
proof (cases "positionWatch st")
  case None
  then show ?thesis by simp
next
  case (Some w)
  obtain d r where w: "w = (d, r)" by (cases w)
  show ?thesis
  proof (cases "arrivalDecision d la lo")
    case True
    then show ?thesis by (simp add: Some w onPosition_arrival)
  next
    case False
    then show ?thesis by (simp add: Some w onPosition_tracking stepProgress_eq)
  qed
qed



lemma deliver_fix_view_irrelevant:
  "(deliver (PositionFix la lo now) (st\<lparr>view := v1\<rparr>))\<lparr>view := v\<rparr> =
   (deliver (PositionFix la lo now) st)\<lparr>view := v\<rparr>"
proof (cases "positionWatch st")
  case None
  then show ?thesis by simp
next
  case (Some w)
  obtain d r where w: "w = (d, r)" by (cases w)
  show ?thesis
    by (cases "arrivalDecision d la lo")
      (simp_all add: Some w onPosition_arrival onPosition_tracking)
qed

lemma deliver_fix_requests_within_debounce:
  "now - lastRecalcTimeRef st \<le> 10000 \<Longrightarrow>
   recalcRequests (deliver (PositionFix la lo now) st) = recalcRequests st"
proof (cases "positionWatch st")
  case None
  then show ?thesis by simp
next
  case (Some w)
  assume g: "now - lastRecalcTimeRef st \<le> 10000"
  obtain d r where w: "w = (d, r)" by (cases w)
  show ?thesis using g
    by (cases "arrivalDecision d la lo")
      (simp_all add: Some w onPosition_arrival onPosition_tracking)
qed

text \<open>Once the watch is cleared, position fixes reach no handler and change nothing.\<close>

lemma fixes_after_clearWatch:
  "positionWatch st = None \<Longrightarrow> run (map (\<lambda>(la, lo, now). PositionFix la lo now) fs) st = st"
  by (induction fs arbitrary: st) (auto split: prod.split)

text \<open>A routing response never touches the watch: after a new route is installed the
  callback still works on the destination and the route it was registered with.\<close>

lemma response_keeps_watch:
  "positionWatch (deliver (RecalcResolved response) st) = positionWatch st"
  by (cases response) (simp_all add: recalculateRoute_resolved_def split: list.split)










section \<open>The sample session, evaluated\<close>

lemmas sample_defs =
  sampleStart_def sampleDestination_def sampleRoute_def startNavigation_def gridState_def
  setBackDestination_def shortLegDestination_def shortLegRoute_def detourRoute_def

lemma sample_watch:
  "positionWatch sampleStart = Some (sampleDestination, sampleRoute)"
  by (simp add: sample_defs)

lemma sample_half_not_arrived: "\<not> arrivalDecision sampleDestination (1 / 2) 0"
  by (simp add: arrivalDecision_def sample_defs meridian_eval)

lemma sample_half_off_route: "offRoute sampleRoute (1 / 2) 0"
  by (simp add: offRoute_iff sample_defs meridian_eval)

lemma sample_half_not_near: "\<not> nearStepEnd sampleRoute 0 (1 / 2) 0"
  by (simp add: nearStepEnd_def stepEndCoord_def step_at_def coord_at_def sample_defs meridian_eval)

lemma sample_one_near: "nearStepEnd sampleRoute 0 1 0"
  by (simp add: nearStepEnd_def stepEndCoord_def step_at_def coord_at_def sample_defs meridian_eval)

lemma sample_one_not_arrived: "\<not> arrivalDecision sampleDestination 1 0"
  by (simp add: arrivalDecision_def sample_defs meridian_eval)

lemma sample_three_halves:
  "\<not> arrivalDecision sampleDestination (3 / 2) 0" "offRoute sampleRoute (3 / 2) 0"
  "\<not> nearStepEnd sampleRoute 1 (3 / 2) 0"
  by (simp_all add: arrivalDecision_def offRoute_iff nearStepEnd_def stepEndCoord_def step_at_def
      coord_at_def sample_defs meridian_eval)

lemma sample_two_arrived: "arrivalDecision sampleDestination 2 0"
  by (simp add: arrivalDecision_def sample_defs meridian_eval)

lemma sample_after_first_fix:
  "deliver (PositionFix (1 / 2) 0 1700000000000) sampleStart =
     sampleStart\<lparr>location := Some \<lparr>lat = 1 / 2, lng = 0\<rparr>,
                 lastRecalcTimeRef := 1700000000000, view := Recalculating,
                 recalcRequests := [(\<lparr>lat = 1 / 2, lng = 0\<rparr>, sampleDestination)]\<rparr>"
proof -
  have l: "lastRecalcTimeRef sampleStart = 0" "recalcRequests sampleStart = []"
    "currentStepIndex sampleStart = 0"
    by (simp_all add: sample_defs)
  have p: "stepProgress sampleRoute \<lparr>lat = 1 / 2, lng = 0\<rparr> 0 = 0"
    using sample_half_not_near by (simp add: stepProgress_eq)
  show ?thesis
    using deliver_fix_requests [OF sample_watch sample_half_not_arrived, of 1700000000000]
      sample_half_off_route l p
    by simp
qed

lemma sample_after_advance:
  "deliver (PositionFix 1 0 1700000000000) sampleStart =
     sampleStart\<lparr>location := Some \<lparr>lat = 1, lng = 0\<rparr>, currentStepIndex := 1\<rparr>"
proof -
  have o: "\<not> offRoute sampleRoute 1 0"
    by (simp add: offRoute_iff sample_defs meridian_eval)
  have i: "currentStepIndex sampleStart = 0" "length (steps sampleRoute) = 2"
    by (simp_all add: sample_defs)
  have p: "stepProgress sampleRoute \<lparr>lat = 1, lng = 0\<rparr> 0 = 1"
    using sample_one_near i by (simp add: stepProgress_eq)
  show ?thesis
    using deliver_fix_requests [OF sample_watch sample_one_not_arrived, of 1700000000000] o i p
    by simp
qed

section \<open>Recalculation: debounce and the recalculating view\<close>

text \<open>
  \<^bold>\<open>C1\<close> (amended). On a fix delivered to the position callback that is not an arrival
  and is off-route, a recalculation request is issued if and only if strictly more than
  10000 ms have passed since \<open>lastRecalcTimeRef\<close>, which is then set to the time of the
  fix; \<open>lastRecalcTimeRef\<close> is 0 until the first request, so with a real clock the first
  off-route fix always issues one. Of two such fixes \<open>gap\<close> ms apart, the first one
  issuing a request, the second issues another exactly when \<open>gap > 10000\<close>: one request
  in all for a gap of 5 s, two for a gap of 11 s.
\<close>

theorem recalc_debounce_strict:
  assumes "positionWatch st = Some (d, r)"
    and "\<not> arrivalDecision d la lo" and "offRoute r la lo"
  shows "recalcRequests (deliver (PositionFix la lo now) st) =
           (if 10000 < now - lastRecalcTimeRef st
            then recalcRequests st @ [(\<lparr>lat = la, lng = lo\<rparr>, d)]
            else recalcRequests st) \<and>
         lastRecalcTimeRef (deliver (PositionFix la lo now) st) =
           (if 10000 < now - lastRecalcTimeRef st then now else lastRecalcTimeRef st) \<and>
         (\<not> arrivalDecision d la' lo' \<and> offRoute r la' lo' \<and>
          10000 < now - lastRecalcTimeRef st \<longrightarrow>
            length (recalcRequests
                      (run [PositionFix la lo now, PositionFix la' lo' (now + gap)] st)) =
              length (recalcRequests st) + (if 10000 < gap then 2 else 1))"
proof -
  let ?st1 = "deliver (PositionFix la lo now) st"
  have one: "deliver (PositionFix la lo now) st =
     (if 10000 < now - lastRecalcTimeRef st then
        st\<lparr>location := Some \<lparr>lat = la, lng = lo\<rparr>,
           currentStepIndex := stepProgress r \<lparr>lat = la, lng = lo\<rparr> (currentStepIndex st),
           lastRecalcTimeRef := now, view := Recalculating,
           recalcRequests := recalcRequests st @ [(\<lparr>lat = la, lng = lo\<rparr>, d)]\<rparr>
      else
        st\<lparr>location := Some \<lparr>lat = la, lng = lo\<rparr>,
           currentStepIndex := stepProgress r \<lparr>lat = la, lng = lo\<rparr> (currentStepIndex st)\<rparr>)"
    using deliver_fix_requests [OF assms(1,2), of now] assms(3) by simp
  have c1: "recalcRequests ?st1 =
           (if 10000 < now - lastRecalcTimeRef st
            then recalcRequests st @ [(\<lparr>lat = la, lng = lo\<rparr>, d)]
            else recalcRequests st)"
    unfolding one by simp
  have c2: "lastRecalcTimeRef ?st1 =
           (if 10000 < now - lastRecalcTimeRef st then now else lastRecalcTimeRef st)"
    unfolding one by simp
  have c3: "length (recalcRequests
                      (run [PositionFix la lo now, PositionFix la' lo' (now + gap)] st)) =
              length (recalcRequests st) + (if 10000 < gap then 2 else 1)"
    if h: "\<not> arrivalDecision d la' lo'" "offRoute r la' lo'" "10000 < now - lastRecalcTimeRef st"
  proof -
    have w1: "positionWatch ?st1 = Some (d, r)" unfolding one using assms(1) by simp
    have l1: "lastRecalcTimeRef ?st1 = now" using c2 h(3) by simp
    have r1: "length (recalcRequests ?st1) = length (recalcRequests st) + 1" using c1 h(3) by simp
    have "recalcRequests (deliver (PositionFix la' lo' (now + gap)) ?st1) =
            (if 10000 < gap then recalcRequests ?st1 @ [(\<lparr>lat = la', lng = lo'\<rparr>, d)]
             else recalcRequests ?st1)"
      using deliver_fix_requests [OF w1 h(1), of "now + gap"] h(2) l1 by simp
    then show ?thesis using r1 by simp
  qed
  show ?thesis using c1 c2 c3 by blast
qed

theorem recalc_debounce_strict_witness:
  "positionWatch sampleStart = Some (sampleDestination, sampleRoute) \<and>
   \<not> arrivalDecision sampleDestination (1 / 2) 0 \<and> offRoute sampleRoute (1 / 2) 0 \<and>
   10000 < 1700000000000 - lastRecalcTimeRef sampleStart \<and>
   recalcRequests (deliver (PositionFix (1 / 2) 0 1700000000000) sampleStart) =
     [(\<lparr>lat = 1 / 2, lng = 0\<rparr>, sampleDestination)] \<and>
   length (recalcRequests
             (run [PositionFix (1 / 2) 0 1700000000000,
                   PositionFix (1 / 2) 0 (1700000000000 + 5000)] sampleStart)) = 1 \<and>
   length (recalcRequests
             (run [PositionFix (1 / 2) 0 1700000000000,
                   PositionFix (1 / 2) 0 (1700000000000 + 11000)] sampleStart)) = 2"
proof -
  have l: "lastRecalcTimeRef sampleStart = 0" "recalcRequests sampleStart = []"
    by (simp_all add: sample_defs)
  show ?thesis
    using recalc_debounce_strict [OF sample_watch sample_half_not_arrived sample_half_off_route,
        of 1700000000000 "1 / 2" 0 5000]
      recalc_debounce_strict [OF sample_watch sample_half_not_arrived sample_half_off_route,
        of 1700000000000 "1 / 2" 0 11000]
      sample_watch sample_half_not_arrived sample_half_off_route l
    by simp
qed

text \<open>
  The claim as stated, with "at least 10 s", fails at a gap of exactly 10000 ms: the
  second off-route fix issues no request.
\<close>

theorem recalc_at_exactly_10s_counterexample:
  "offRoute sampleRoute (1 / 2) 0 \<and>
   lastRecalcTimeRef (run [PositionFix (1 / 2) 0 1700000000000] sampleStart) = 1700000000000 \<and>
   10000 \<le> 1700000010000 - lastRecalcTimeRef (run [PositionFix (1 / 2) 0 1700000000000] sampleStart) \<and>
   recalcRequests (run [PositionFix (1 / 2) 0 1700000000000,
                        PositionFix (1 / 2) 0 1700000010000] sampleStart) =
     recalcRequests (run [PositionFix (1 / 2) 0 1700000000000] sampleStart)"
proof -
  let ?st1 = "deliver (PositionFix (1 / 2) 0 1700000000000) sampleStart"
  have l: "lastRecalcTimeRef sampleStart = 0" by (simp add: sample_defs)
  have s1: "?st1 = sampleStart\<lparr>location := Some \<lparr>lat = 1 / 2, lng = 0\<rparr>,
           currentStepIndex := stepProgress sampleRoute \<lparr>lat = 1 / 2, lng = 0\<rparr> (currentStepIndex sampleStart),
           lastRecalcTimeRef := 1700000000000, view := Recalculating,
           recalcRequests := recalcRequests sampleStart @ [(\<lparr>lat = 1 / 2, lng = 0\<rparr>, sampleDestination)]\<rparr>"
    using deliver_fix_requests [OF sample_watch sample_half_not_arrived, of 1700000000000]
      sample_half_off_route l by simp
  have w1: "positionWatch ?st1 = Some (sampleDestination, sampleRoute)"
    unfolding s1 using sample_watch by simp
  have l1: "lastRecalcTimeRef ?st1 = 1700000000000" unfolding s1 by simp
  have "recalcRequests (deliver (PositionFix (1 / 2) 0 1700000010000) ?st1) = recalcRequests ?st1"
    using deliver_fix_requests [OF w1 sample_half_not_arrived, of 1700000010000] l1 by simp
  then show ?thesis using l1 sample_half_off_route by simp
qed

text \<open>
  \<^bold>\<open>C2\<close> (amended). While the view is \<open>recalculating\<close> a position fix is handled exactly
  as while it is \<open>navigating\<close>: the callback never reads the view, so location, arrival,
  step progression and the off-route test all run. What holds a second request back is the
  debounce alone: a fix at most 10000 ms after \<open>lastRecalcTimeRef\<close> issues none, and an
  off-route fix later than that issues one, whether or not the first request has resolved.
  The step progression and the off-route test are stated for the state in which the
  installed route is the route the watch was started with.
\<close>

theorem recalculating_fix_as_navigating_installed:
  assumes "view st = Recalculating"
  shows "(deliver (PositionFix la lo now) st)\<lparr>view := v\<rparr> =
           (deliver (PositionFix la lo now) (st\<lparr>view := Navigating\<rparr>))\<lparr>view := v\<rparr> \<and>
         (now - lastRecalcTimeRef st \<le> 10000 \<longrightarrow>
            recalcRequests (deliver (PositionFix la lo now) st) = recalcRequests st) \<and>
         (positionWatch st = Some (d, r) \<and> route st = Some r \<and>
          \<not> arrivalDecision d la lo \<and> offRoute r la lo \<and>
          10000 < now - lastRecalcTimeRef st \<longrightarrow>
            recalcRequests (deliver (PositionFix la lo now) st) =
              recalcRequests st @ [(\<lparr>lat = la, lng = lo\<rparr>, d)] \<and>
            currentStepIndex (deliver (PositionFix la lo now) st) =
              stepProgress r \<lparr>lat = la, lng = lo\<rparr> (currentStepIndex st))"
proof -
  have a: "(deliver (PositionFix la lo now) st)\<lparr>view := v\<rparr> =
           (deliver (PositionFix la lo now) (st\<lparr>view := Navigating\<rparr>))\<lparr>view := v\<rparr>"
    by (rule deliver_fix_view_irrelevant [symmetric])
  have b: "recalcRequests (deliver (PositionFix la lo now) st) = recalcRequests st"
    if "now - lastRecalcTimeRef st \<le> 10000"
    using that by (rule deliver_fix_requests_within_debounce)
  have c: "recalcRequests (deliver (PositionFix la lo now) st) =
              recalcRequests st @ [(\<lparr>lat = la, lng = lo\<rparr>, d)] \<and>
            currentStepIndex (deliver (PositionFix la lo now) st) =
              stepProgress r \<lparr>lat = la, lng = lo\<rparr> (currentStepIndex st)"
    if "positionWatch st = Some (d, r)" "\<not> arrivalDecision d la lo" "offRoute r la lo"
      "10000 < now - lastRecalcTimeRef st"
    using deliver_fix_requests [OF that(1,2), of now] that(3,4) by simp
  show ?thesis using a b c by blast
qed

theorem recalculating_fix_as_navigating_installed_witness:
  "view (deliver (PositionFix (1 / 2) 0 1700000000000) sampleStart) = Recalculating \<and>
   1700000005000 - lastRecalcTimeRef (deliver (PositionFix (1 / 2) 0 1700000000000) sampleStart)
     \<le> 10000 \<and>
   recalcRequests (deliver (PositionFix (1 / 2) 0 1700000005000)
                     (deliver (PositionFix (1 / 2) 0 1700000000000) sampleStart)) =
     recalcRequests (deliver (PositionFix (1 / 2) 0 1700000000000) sampleStart) \<and>
   positionWatch (deliver (PositionFix (1 / 2) 0 1700000000000) sampleStart) =
     Some (sampleDestination, sampleRoute) \<and>
   route (deliver (PositionFix (1 / 2) 0 1700000000000) sampleStart) = Some sampleRoute \<and>
   \<not> arrivalDecision sampleDestination (1 / 2) 0 \<and> offRoute sampleRoute (1 / 2) 0 \<and>
   10000 < 1700000011000 -
             lastRecalcTimeRef (deliver (PositionFix (1 / 2) 0 1700000000000) sampleStart) \<and>
   recalcRequests (deliver (PositionFix (1 / 2) 0 1700000011000)
                     (deliver (PositionFix (1 / 2) 0 1700000000000) sampleStart)) =
     [(\<lparr>lat = 1 / 2, lng = 0\<rparr>, sampleDestination),
      (\<lparr>lat = 1 / 2, lng = 0\<rparr>, sampleDestination)]"
proof -
  let ?s1 = "deliver (PositionFix (1 / 2) 0 1700000000000) sampleStart"
  have v: "view ?s1 = Recalculating" unfolding sample_after_first_fix by simp
  have f: "lastRecalcTimeRef ?s1 = 1700000000000"
    "positionWatch ?s1 = Some (sampleDestination, sampleRoute)"
    "recalcRequests ?s1 = [(\<lparr>lat = 1 / 2, lng = 0\<rparr>, sampleDestination)]"
    "route ?s1 = Some sampleRoute"
    unfolding sample_after_first_fix using sample_watch by (simp_all add: sample_defs)
  show ?thesis
    using recalculating_fix_as_navigating_installed [OF v,
        where la = "1 / 2" and lo = 0 and now = 1700000005000]
      recalculating_fix_as_navigating_installed [OF v,
        where la = "1 / 2" and lo = 0 and now = 1700000011000
          and d = sampleDestination and r = sampleRoute]
      v f sample_half_not_arrived sample_half_off_route
    by simp
qed

text \<open>
  The claim as stated fails: with one request in flight and the view \<open>recalculating\<close>, a
  fix at the end of step 0 advances the step index, and an off-route fix 11 s after the
  first issues a second request beside the unresolved first.
\<close>

theorem recalculating_not_a_lock_counterexample:
  "view (deliver (PositionFix (1 / 2) 0 1700000000000) sampleStart) = Recalculating \<and>
   recalcRequests (deliver (PositionFix (1 / 2) 0 1700000000000) sampleStart) =
     [(\<lparr>lat = 1 / 2, lng = 0\<rparr>, sampleDestination)] \<and>
   currentStepIndex (deliver (PositionFix (1 / 2) 0 1700000000000) sampleStart) = 0 \<and>
   currentStepIndex (deliver (PositionFix 1 0 1700000002000)
                       (deliver (PositionFix (1 / 2) 0 1700000000000) sampleStart)) = 1 \<and>
   recalcRequests (deliver (PositionFix (1 / 2) 0 1700000011000)
                     (deliver (PositionFix (1 / 2) 0 1700000000000) sampleStart)) =
     [(\<lparr>lat = 1 / 2, lng = 0\<rparr>, sampleDestination),
      (\<lparr>lat = 1 / 2, lng = 0\<rparr>, sampleDestination)]"
proof -
  let ?s1 = "deliver (PositionFix (1 / 2) 0 1700000000000) sampleStart"
  have f: "lastRecalcTimeRef ?s1 = 1700000000000"
    "positionWatch ?s1 = Some (sampleDestination, sampleRoute)"
    "recalcRequests ?s1 = [(\<lparr>lat = 1 / 2, lng = 0\<rparr>, sampleDestination)]"
    "currentStepIndex ?s1 = 0" "view ?s1 = Recalculating"
    unfolding sample_after_first_fix using sample_watch by (simp_all add: sample_defs)
  have n: "length (steps sampleRoute) = 2" by (simp add: sample_defs)
  have a: "currentStepIndex (deliver (PositionFix 1 0 1700000002000) ?s1) = 1"
    using deliver_fix_index [of 1 0 1700000002000 ?s1] f sample_one_near sample_one_not_arrived n
    by simp
  have b: "recalcRequests (deliver (PositionFix (1 / 2) 0 1700000011000) ?s1) =
     [(\<lparr>lat = 1 / 2, lng = 0\<rparr>, sampleDestination),
      (\<lparr>lat = 1 / 2, lng = 0\<rparr>, sampleDestination)]"
    using deliver_fix_requests [OF f(2) sample_half_not_arrived, of 1700000011000]
      sample_half_off_route f
    by simp
  show ?thesis using a b f by simp
qed




section \<open>Step progression\<close>




section \<open>Arrival\<close>

text \<open>
  \<^bold>\<open>C6\<close> (amended). For every fix delivered to the position callback, arrival is decided
  (the view becomes \<open>arrived\<close> and the watch is cleared) if and only if the distance from
  the fix to the selected destination, the search result the watch was started with, is
  less than 20 m. Neither the route nor the current step index enters the decision.
\<close>

theorem arrival_by_selected_destination:
  "positionWatch st = Some (d, r) \<Longrightarrow>
   (view (deliver (PositionFix la lo now) st) = Arrived \<and>
    positionWatch (deliver (PositionFix la lo now) st) = None) =
   (calculateDistance la lo (lat d) (lng d) < 20)"
proof -
  assume w: "positionWatch st = Some (d, r)"
  show ?thesis
  proof (cases "arrivalDecision d la lo")
    case True
    then show ?thesis using w by (simp add: onPosition_arrival) (simp add: arrivalDecision_def)
  next
    case False
    have "positionWatch (deliver (PositionFix la lo now) st) = Some (d, r)"
      using deliver_fix_requests [OF w False, of now] w by simp
    then show ?thesis using False by (simp add: arrivalDecision_def)
  qed
qed

theorem arrival_by_selected_destination_witness:
  "positionWatch sampleStart = Some (sampleDestination, sampleRoute) \<and>
   calculateDistance 2 0 (lat sampleDestination) (lng sampleDestination) < 20 \<and>
   view (deliver (PositionFix 2 0 1700000000000) sampleStart) = Arrived \<and>
   positionWatch (deliver (PositionFix 2 0 1700000000000) sampleStart) = None"
proof -
  have "calculateDistance 2 0 (lat sampleDestination) (lng sampleDestination) < 20"
    by (simp add: sample_defs meridian_eval)
  then show ?thesis
    using arrival_by_selected_destination [OF sample_watch, of 2 0 1700000000000] sample_watch
    by simp
qed

text \<open>
  The claim as stated, with the end point of the last step as final destination, fails
  when the selected place is away from the end of the route: at the last coordinate of the
  route, 0 m from the end point of the last step, the callback does not decide arrival.
\<close>

theorem arrival_not_at_route_end_counterexample:
  "stepEndCoord sampleRoute (length (steps sampleRoute) - 1) = Some (0, 2) \<and>
   last (coordinates sampleRoute) = (0, 2) \<and>
   calculateDistance 2 0 2 0 < 20 \<and>
   view (deliver (PositionFix 2 0 1700000000000)
           (startNavigation setBackDestination sampleRoute (gridState \<lparr>lat = 0, lng = 0\<rparr>)))
     = Navigating \<and>
   positionWatch (deliver (PositionFix 2 0 1700000000000)
           (startNavigation setBackDestination sampleRoute (gridState \<lparr>lat = 0, lng = 0\<rparr>)))
     = Some (setBackDestination, sampleRoute)"
proof -
  let ?st = "startNavigation setBackDestination sampleRoute (gridState \<lparr>lat = 0, lng = 0\<rparr>)"
  have w: "positionWatch ?st = Some (setBackDestination, sampleRoute)"
    by (simp add: startNavigation_def)
  have a: "\<not> arrivalDecision setBackDestination 2 0"
    by (simp add: arrivalDecision_def setBackDestination_def meridian_eval)
  have o: "\<not> offRoute sampleRoute 2 0"
    by (simp add: offRoute_iff sampleRoute_def meridian_eval)
  have e: "stepEndCoord sampleRoute (length (steps sampleRoute) - 1) = Some (0, 2)"
    by (simp add: stepEndCoord_def step_at_def coord_at_def sampleRoute_def)
  have v: "view ?st = Navigating" by (simp add: startNavigation_def)
  show ?thesis
    using deliver_fix_requests [OF w a, of 1700000000000] o e w v
    by (simp add: calculateDistance_self) (simp add: sampleRoute_def)
qed

text \<open>
  \<^bold>\<open>C3.\<close> Arrival clears the watch, so later position fixes change nothing. A
  recalculation response that was in flight at arrival is still applied: on the sample
  session the traveler advances to step 1, goes off-route (a request is issued), arrives,
  and the late response then installs the new route, resets the step index to 0 and sets
  the view back to \<open>navigating\<close>, with no watch registered.
\<close>

theorem late_response_after_arrival:
  "view (run [PositionFix 1 0 1700000000000, PositionFix (3 / 2) 0 1700000001000,
              PositionFix 2 0 1700000003000] sampleStart) = Arrived \<and>
   positionWatch (run [PositionFix 1 0 1700000000000, PositionFix (3 / 2) 0 1700000001000,
              PositionFix 2 0 1700000003000] sampleStart) = None \<and>
   route (run [PositionFix 1 0 1700000000000, PositionFix (3 / 2) 0 1700000001000,
              PositionFix 2 0 1700000003000] sampleStart) = Some sampleRoute \<and>
   currentStepIndex (run [PositionFix 1 0 1700000000000, PositionFix (3 / 2) 0 1700000001000,
              PositionFix 2 0 1700000003000] sampleStart) = 1 \<and>
   view (run [PositionFix 1 0 1700000000000, PositionFix (3 / 2) 0 1700000001000,
              PositionFix 2 0 1700000003000, RecalcResolved (ResponseOk detourRoute)]
           sampleStart) = Navigating \<and>
   route (run [PositionFix 1 0 1700000000000, PositionFix (3 / 2) 0 1700000001000,
              PositionFix 2 0 1700000003000, RecalcResolved (ResponseOk detourRoute)]
           sampleStart) = Some detourRoute \<and>
   currentStepIndex (run [PositionFix 1 0 1700000000000, PositionFix (3 / 2) 0 1700000001000,
              PositionFix 2 0 1700000003000, RecalcResolved (ResponseOk detourRoute)]
           sampleStart) = 0 \<and>
   positionWatch (run [PositionFix 1 0 1700000000000, PositionFix (3 / 2) 0 1700000001000,
              PositionFix 2 0 1700000003000, RecalcResolved (ResponseOk detourRoute)]
           sampleStart) = None"
proof -
  let ?s1 = "sampleStart\<lparr>location := Some \<lparr>lat = 1, lng = 0\<rparr>, currentStepIndex := 1\<rparr>"
  let ?s2 = "?s1\<lparr>location := Some \<lparr>lat = 3 / 2, lng = 0\<rparr>,
                 lastRecalcTimeRef := 1700000001000, view := Recalculating,
                 recalcRequests := [(\<lparr>lat = 3 / 2, lng = 0\<rparr>, sampleDestination)]\<rparr>"
  let ?s3 = "?s2\<lparr>location := Some \<lparr>lat = 2, lng = 0\<rparr>, positionWatch := None,
                 view := Arrived\<rparr>"
  have w1: "positionWatch ?s1 = Some (sampleDestination, sampleRoute)"
    using sample_watch by simp
  have l1: "lastRecalcTimeRef ?s1 = 0" "recalcRequests ?s1 = []" "currentStepIndex ?s1 = 1"
    by (simp_all add: sample_defs)
  have p: "stepProgress sampleRoute \<lparr>lat = 3 / 2, lng = 0\<rparr> 1 = 1"
    using sample_three_halves(3) by (simp add: stepProgress_eq)
  have e2: "deliver (PositionFix (3 / 2) 0 1700000001000) ?s1 = ?s2"
    using deliver_fix_requests [OF w1 sample_three_halves(1), of 1700000001000]
      sample_three_halves(2) l1 p
    by simp
  have e3: "deliver (PositionFix 2 0 1700000003000) ?s2 = ?s3"
    using sample_watch sample_two_arrived by (simp add: onPosition_arrival)
  have r3: "run [PositionFix 1 0 1700000000000, PositionFix (3 / 2) 0 1700000001000,
              PositionFix 2 0 1700000003000] sampleStart = ?s3"
    by (simp only: run.simps sample_after_advance e2 e3)
  have r4: "run [PositionFix 1 0 1700000000000, PositionFix (3 / 2) 0 1700000001000,
              PositionFix 2 0 1700000003000, RecalcResolved (ResponseOk detourRoute)]
           sampleStart = deliver (RecalcResolved (ResponseOk detourRoute)) ?s3"
    by (simp only: run.simps sample_after_advance e2 e3)
  have s: "route sampleStart = Some sampleRoute" by (simp add: sample_defs)
  show ?thesis unfolding r3 r4 using s by (simp add: recalculateRoute_resolved_def)
qed

section \<open>The off-route threshold\<close>


end
